theory Spec2Isabelle
  imports Main "HOL-Library.Word"
begin

section \<open>Python values and exceptions\<close>

text \<open>
  The exceptions the traversal code raises itself (\<open>KeyError\<close>, the \<open>AssertionError\<close> of an
  \<open>assert\<close>, \<open>NotImplementedError\<close>), the \<open>MappingError\<close> the specification names for the URL
  mapper, and any other exception class a collaborator may raise, kept by its class name.
  Exception messages are not modelled.
\<close>

datatype exn =
    KeyError
  | AssertionError
  | NotImplementedError
  | MappingError
  | OtherError string

text \<open>
  The Python values that reach a truth test (\<open>if not obj\<close>, \<open>if view_name\<close>) or a type test
  (\<open>type(path) == str\<close>). \<open>PyInstance a\<close> is an ordinary model instance, identified by its
  address \<open>a\<close>, of a class that defines neither \<open>__bool__\<close> nor \<open>__len__\<close>.
\<close>

datatype pyval =
    PyNone
  | PyBool bool
  | PyInt int
  | PyStr string
  | PyList "pyval list"
  | PyInstance nat

text \<open>Python's truth value of an object, as \<open>if obj\<close> and \<open>not obj\<close> compute it.\<close>

fun truthy :: "pyval \<Rightarrow> bool" where
  "truthy PyNone = False"
| "truthy (PyBool b) = b"
| "truthy (PyInt i) = (i \<noteq> 0)"
| "truthy (PyStr s) = (s \<noteq> [])"
| "truthy (PyList xs) = (xs \<noteq> [])"
| "truthy (PyInstance a) = True"

text \<open>The type test \<open>type(v) == str\<close>.\<close>

fun is_str :: "pyval \<Rightarrow> bool" where
  "is_str (PyStr s) = True"
| "is_str v = False"


section \<open>websauna.system.crud\<close>

subsection \<open>The collaborators of a CRUD\<close>

text \<open>
  The URL mapper (\<open>crud.urlmapper\<close>) is an object with three methods. Each call may raise;
  \<open>get_path_from_object\<close> returns a Python value, which \<open>wrap_to_resource\<close> tests for being a
  \<open>str\<close>.
\<close>

record ('obj, 'id) mapper =
  get_path_from_object :: "'obj \<Rightarrow> exn + pyval"
  get_id_from_path :: "string \<Rightarrow> exn + 'id"
  is_id :: "string \<Rightarrow> exn + bool"

text \<open>
  A CRUD instance: the \<open>mapper\<close> class attribute, the \<open>fetch_object\<close> method of the concrete
  subclass, and the optional \<open>Resource\<close> class attribute (\<open>None\<close> when
  \<open>hasattr(self, "Resource")\<close> is false; otherwise the name of a class that is, or inherits
  its constructor from, \<open>crud.Resource\<close>).
\<close>

record ('obj, 'id) crud =
  title :: string
  singular_name :: string
  plural_name :: string
  mapper :: "('obj, 'id) mapper"
  fetch_object :: "'id \<Rightarrow> exn + 'obj"
  Resource_attr :: "string option"

text \<open>
  The calls a CRUD makes into its collaborators, in the order they happen. The log makes
  ``was never called'' a statement about the model.
\<close>

datatype ('obj, 'id) call =
    IsId string
  | GetIdFromPath string
  | FetchObject 'id
  | GetPathFromObject 'obj

subsection \<open>class Resource\<close>

text \<open>
  One object in CRUD traversing. \<open>r_parent\<close> and \<open>r_name\<close> are the attributes \<open>__parent__\<close>
  and \<open>__name__\<close>; \<open>None\<close> means the attribute does not exist on the instance
  (\<open>hasattr\<close> is false). \<open>r_class\<close> is the class the instance was made from.
\<close>

record ('obj, 'id) resource =
  r_class :: string
  r_obj :: 'obj
  r_parent :: "('obj, 'id) crud option"
  r_name :: "string option"

text \<open>\<open>Resource.__init__\<close>, run by \<open>cls(obj)\<close>: stores the object and sets no lineage.\<close>

definition Resource_init :: "string \<Rightarrow> 'obj \<Rightarrow> ('obj, 'id) resource" where
  "Resource_init cls ob = \<lparr>r_class = cls, r_obj = ob, r_parent = None, r_name = None\<rparr>"

definition get_object :: "('obj, 'id) resource \<Rightarrow> 'obj" where
  "get_object r = r_obj r"

text \<open>
  \<open>Resource.get_path\<close>: the assertion on \<open>__parent__\<close>, then the mapper of the parent CRUD
  applied to the wrapped object. The result is paired with the collaborator calls made.
\<close>

definition get_path ::
  "('obj, 'id) resource \<Rightarrow> (exn + pyval) \<times> ('obj, 'id) call list" where
  "get_path r =
     (case r_parent r of
        None \<Rightarrow> (Inl AssertionError, [])
      | Some c \<Rightarrow> (get_path_from_object (mapper c) (r_obj r), [GetPathFromObject (r_obj r)]))"

definition get_title ::
  "('obj, 'id) resource \<Rightarrow> (exn + pyval) \<times> ('obj, 'id) call list" where
  "get_title r = get_path r"

text \<open>
  Modelled from the spec: \<open>make_lineage\<close> belongs to the base class
  \<open>websauna.system.core.traversal.Resource\<close>, which is not among the sources. The
  specification says of \<open>wrap_to_resource\<close> that it ``sets its lineage (parent = self,
  name = path)'', and the docstring of \<open>traverse_to_object\<close> speaks of the \<open>__parent__\<close> and
  \<open>__name__\<close> pointers.
\<close>

definition make_lineage ::
  "('obj, 'id) crud \<Rightarrow> ('obj, 'id) resource \<Rightarrow> string \<Rightarrow> ('obj, 'id) resource" where
  "make_lineage par child nm = child\<lparr>r_parent := Some par, r_name := Some nm\<rparr>"

subsection \<open>class CRUD\<close>

text \<open>\<open>CRUD.make_resource\<close>: the \<open>hasattr\<close> test, then the constructor call.\<close>

definition make_resource :: "('obj, 'id) crud \<Rightarrow> 'obj \<Rightarrow> exn + ('obj, 'id) resource" where
  "make_resource c ob =
     (case Resource_attr c of
        Some cls \<Rightarrow> Inr (Resource_init cls ob)
      | None \<Rightarrow> Inl NotImplementedError)"

text \<open>
  \<open>CRUD.wrap_to_resource\<close>: \<open>make_resource\<close> first, then the mapper, then the assertion
  \<open>type(path) == str\<close>, then \<open>make_lineage(self, instance, path)\<close>.
\<close>

definition wrap_to_resource ::
  "('obj, 'id) crud \<Rightarrow> 'obj \<Rightarrow> (exn + ('obj, 'id) resource) \<times> ('obj, 'id) call list" where
  "wrap_to_resource c ob =
     (case make_resource c ob of
        Inl e \<Rightarrow> (Inl e, [])
      | Inr inst \<Rightarrow>
          (case get_path_from_object (mapper c) ob of
             Inl e \<Rightarrow> (Inl e, [GetPathFromObject ob])
           | Inr (PyStr path) \<Rightarrow> (Inr (make_lineage c inst path), [GetPathFromObject ob])
           | Inr _ \<Rightarrow> (Inl AssertionError, [GetPathFromObject ob])))"

text \<open>
  \<open>CRUD.traverse_to_object\<close>: three statements in sequence, with no handler around any of
  them.
\<close>

definition traverse_to_object ::
  "('obj, 'id) crud \<Rightarrow> string \<Rightarrow> (exn + ('obj, 'id) resource) \<times> ('obj, 'id) call list" where
  "traverse_to_object c path =
     (case get_id_from_path (mapper c) path of
        Inl e \<Rightarrow> (Inl e, [GetIdFromPath path])
      | Inr i \<Rightarrow>
          (case fetch_object c i of
             Inl e \<Rightarrow> (Inl e, [GetIdFromPath path, FetchObject i])
           | Inr ob \<Rightarrow>
               (case wrap_to_resource c ob of
                  (r, calls) \<Rightarrow> (r, [GetIdFromPath path, FetchObject i] @ calls))))"

text \<open>\<open>CRUD.__getitem__\<close>.\<close>

definition crud_getitem ::
  "('obj, 'id) crud \<Rightarrow> string \<Rightarrow> (exn + ('obj, 'id) resource) \<times> ('obj, 'id) call list" where
  "crud_getitem c path =
     (case is_id (mapper c) path of
        Inl e \<Rightarrow> (Inl e, [IsId path])
      | Inr True \<Rightarrow>
          (case traverse_to_object c path of (r, calls) \<Rightarrow> (r, IsId path # calls))
      | Inr False \<Rightarrow> (Inl KeyError, [IsId path]))"

text \<open>
  \<open>CRUD.fetch_object\<close> as the base class has it: the abstract method raises.
\<close>

definition abstract_fetch_object :: "'id \<Rightarrow> exn + 'obj" where
  "abstract_fetch_object i = Inl NotImplementedError"


section \<open>websauna.system.crud.urlmapper\<close>

text \<open>
  Modelled from the spec: \<open>urlmapper.Base64UUIDMapper\<close>, the default \<open>CRUD.mapper\<close>, is not
  among the sources. The specification (section 4.1) asks for ``an opaque, non-guessable
  encoding of a unique identifier''; the comment on \<open>CRUD.mapper\<close> says that models have
  an attribute \<open>uuid\<close> ``which is base64 encoded to URL''. A UUID is given here by its 16
  bytes, and the encoding is taken to be base64 with the URL-safe alphabet and without
  padding characters. This is the alphabet: the character at position \<open>n\<close> stands for the
  six-bit value \<open>n\<close>.
\<close>

type_synonym byte = "8 word"

definition b64_alphabet :: string where
  "b64_alphabet = ''ABCDEFGHIJKLMNOPQRSTUVWXYZabcdefghijklmnopqrstuvwxyz0123456789-_''"

text \<open>Modelled from the spec: the character of a six-bit value (part of the absent mapper).\<close>

definition b64_char :: "nat \<Rightarrow> char" where
  "b64_char n = b64_alphabet ! n"

text \<open>
  Modelled from the spec: the six-bit value of a character, \<open>None\<close> for a character outside
  the alphabet (part of the absent mapper).
\<close>

definition b64_index :: "char \<Rightarrow> nat option" where
  "b64_index ch = map_of (zip b64_alphabet [0..<64]) ch"

text \<open>
  Modelled from the spec: the base64 regrouping of the absent mapper's encoder. Three
  bytes give four six-bit values; a last group of two bytes gives three, a last group of
  one byte gives two, the unused low bits being zero.
\<close>

fun b64_sextets :: "byte list \<Rightarrow> nat list" where
  "b64_sextets (a # b # c # rest) =
     [unat a div 4,
      (unat a mod 4) * 16 + unat b div 16,
      (unat b mod 16) * 4 + unat c div 64,
      unat c mod 64] @ b64_sextets rest"
| "b64_sextets [a, b] =
     [unat a div 4,
      (unat a mod 4) * 16 + unat b div 16,
      (unat b mod 16) * 4]"
| "b64_sextets [a] =
     [unat a div 4,
      (unat a mod 4) * 16]"
| "b64_sextets [] = []"

text \<open>Modelled from the spec: the encoder of the absent mapper, bytes to path segment.\<close>

definition b64_encode :: "byte list \<Rightarrow> string" where
  "b64_encode bs = map b64_char (b64_sextets bs)"

text \<open>
  Modelled from the spec: the regrouping of the absent mapper's decoder, six-bit values
  back to bytes. The specification wants every string that the encoder does not produce
  rejected, so a lone six-bit value and non-zero unused bits in the last group are
  refused.
\<close>

fun b64_bytes :: "nat list \<Rightarrow> byte list option" where
  "b64_bytes (s1 # s2 # s3 # s4 # rest) =
     (case b64_bytes rest of
        None \<Rightarrow> None
      | Some bs \<Rightarrow>
          Some ([of_nat (s1 * 4 + s2 div 16),
                 of_nat ((s2 mod 16) * 16 + s3 div 4),
                 of_nat ((s3 mod 4) * 64 + s4)] @ bs))"
| "b64_bytes [s1, s2, s3] =
     (if s3 mod 4 = 0
      then Some [of_nat (s1 * 4 + s2 div 16), of_nat ((s2 mod 16) * 16 + s3 div 4)]
      else None)"
| "b64_bytes [s1, s2] =
     (if s2 mod 16 = 0 then Some [of_nat (s1 * 4 + s2 div 16)] else None)"
| "b64_bytes [s1] = None"
| "b64_bytes [] = Some []"

text \<open>
  Modelled from the spec: the decoder of the absent mapper, path segment to bytes, \<open>None\<close>
  on malformed input.
\<close>

definition b64_decode :: "string \<Rightarrow> byte list option" where
  "b64_decode s =
     (case those (map b64_index s) of
        None \<Rightarrow> None
      | Some ss \<Rightarrow> b64_bytes ss)"

text \<open>
  Modelled from the spec: a model instance as the absent mapper sees it, by its \<open>uuid\<close>
  attribute; \<open>None\<close> when the object has no such attribute.
\<close>

record model_instance =
  uuid :: "byte list option"

text \<open>
  Modelled from the spec: the absent \<open>Base64UUIDMapper\<close> itself, after section 4.1.
  \<open>get_path_from_object\<close> ``fails with MappingError if the object lacks the required
  identifying attribute''; \<open>get_id_from_path\<close> is the ``inverse of encoding'' and fails
  with \<open>MappingError\<close> on malformed input; \<open>is_id\<close> is the syntactic check that answers
  whether the segment decodes to an identifier.
\<close>

definition Base64UUIDMapper :: "(model_instance, byte list) mapper" where
  "Base64UUIDMapper =
     \<lparr>get_path_from_object =
        (\<lambda>ob. case uuid ob of
                 None \<Rightarrow> Inl MappingError
               | Some u \<Rightarrow> Inr (PyStr (b64_encode u))),
      get_id_from_path =
        (\<lambda>p. case b64_decode p of
                None \<Rightarrow> Inl MappingError
              | Some bs \<Rightarrow> if length bs = 16 then Inr bs else Inl MappingError),
      is_id =
        (\<lambda>p. case b64_decode p of
                None \<Rightarrow> Inr False
              | Some bs \<Rightarrow> Inr (length bs = 16))\<rparr>"


section \<open>websauna.system.admin.admin\<close>

text \<open>
  The request's \<open>resource_url(resource, *elements)\<close> is the URL builder of the web
  framework; it is a parameter of the model.
\<close>

record 'res request =
  resource_url :: "'res \<Rightarrow> pyval list \<Rightarrow> exn + string"

text \<open>
  The Admin root: the \<open>children\<close> dictionary and the request. \<open>get_admin_resource\<close> is called
  by \<open>get_admin_object_url\<close> but defined outside the sources, so it is a field here. A
  child is any traversal node; nothing in \<open>Admin\<close> looks inside it.
\<close>

record ('child, 'res) admin =
  children :: "string \<rightharpoonup> 'child"
  request :: "'res request"
  get_admin_resource :: "pyval \<Rightarrow> exn + 'res"

datatype 'res admin_call =
    GetAdminResource pyval
  | ResourceUrl 'res "pyval list"

text \<open>\<open>Admin.__getitem__\<close>: a dictionary subscript, which raises \<open>KeyError\<close> on a missing key.\<close>

definition admin_getitem :: "('child, 'res) admin \<Rightarrow> string \<Rightarrow> exn + 'child" where
  "admin_getitem a nm =
     (case children a nm of
        None \<Rightarrow> Inl KeyError
      | Some child \<Rightarrow> Inr child)"

text \<open>
  \<open>Admin.get_admin_object_url\<close>. The result \<open>None\<close> is Python's \<open>None\<close>; \<open>view_name\<close>
  defaults to \<open>PyNone\<close>.
\<close>

definition get_admin_object_url ::
  "('child, 'res) admin \<Rightarrow> pyval \<Rightarrow> pyval \<Rightarrow> (exn + string option) \<times> 'res admin_call list" where
  "get_admin_object_url a ob view_name =
     (if \<not> truthy ob then (Inr None, [])
      else
        (case get_admin_resource a ob of
           Inl e \<Rightarrow> (Inl e, [GetAdminResource ob])
         | Inr res \<Rightarrow>
             (if truthy view_name then
                (map_sum id Some (resource_url (request a) res [view_name]),
                 [GetAdminResource ob, ResourceUrl res [view_name]])
              else
                (map_sum id Some (resource_url (request a) res []),
                 [GetAdminResource ob, ResourceUrl res []]))))"


section \<open>Example configurations\<close>

text \<open>
  A CRUD over two rows, numbered 1 and 2, reached under the path segments \<open>a1\<close> and \<open>b2\<close>.
\<close>

definition widget_rows :: "(string \<times> nat) list" where
  "widget_rows = [(''a1'', 1), (''b2'', 2)]"

definition widget_mapper :: "(nat, nat) mapper" where
  "widget_mapper =
     \<lparr>get_path_from_object =
        (\<lambda>ob. case find (\<lambda>row. snd row = ob) widget_rows of
                 Some row \<Rightarrow> Inr (PyStr (fst row))
               | None \<Rightarrow> Inl MappingError),
      get_id_from_path =
        (\<lambda>p. case map_of widget_rows p of Some i \<Rightarrow> Inr i | None \<Rightarrow> Inl MappingError),
      is_id = (\<lambda>p. Inr (map_of widget_rows p \<noteq> None))\<rparr>"

definition widget_fetch :: "nat \<Rightarrow> exn + nat" where
  "widget_fetch i = (if i = 1 \<or> i = 2 then Inr i else Inl KeyError)"

definition widget_crud :: "(nat, nat) crud" where
  "widget_crud =
     \<lparr>title = ''xx'', singular_name = ''item'', plural_name = ''items'',
      mapper = widget_mapper, fetch_object = widget_fetch,
      Resource_attr = Some ''Resource''\<rparr>"

text \<open>The same CRUD as a subclass that defines no \<open>Resource\<close> attribute.\<close>

definition bare_crud :: "(nat, nat) crud" where
  "bare_crud = widget_crud\<lparr>Resource_attr := None\<rparr>"

text \<open>The same CRUD on the base class's abstract \<open>fetch_object\<close>.\<close>

definition abstract_crud :: "(nat, nat) crud" where
  "abstract_crud = widget_crud\<lparr>fetch_object := abstract_fetch_object\<rparr>"

text \<open>A CRUD whose mapper answers \<open>None\<close> instead of a path string.\<close>

definition none_path_crud :: "(nat, nat) crud" where
  "none_path_crud =
     widget_crud\<lparr>mapper := widget_mapper\<lparr>get_path_from_object := (\<lambda>ob. Inr PyNone)\<rparr>\<rparr>"

text \<open>
  An Admin with two registered children, held by address, whose URL builder joins the
  resource's own URL and the string elements with slashes.
\<close>

fun url_elements :: "pyval list \<Rightarrow> string" where
  "url_elements [] = []"
| "url_elements (PyStr s # vs) = s @ url_elements vs"
| "url_elements (v # vs) = url_elements vs"

definition demo_request :: "string request" where
  "demo_request = \<lparr>resource_url = (\<lambda>res elements. Inr (res @ ''/'' @ url_elements elements))\<rparr>"

definition demo_admin :: "(nat, string) admin" where
  "demo_admin =
     \<lparr>children = [''user'' \<mapsto> 101, ''group'' \<mapsto> 102],
      request = demo_request,
      get_admin_resource =
        (\<lambda>ob. case ob of
                 PyInstance n \<Rightarrow> Inr (''/admin/models/user/'' @ replicate n CHR ''x'')
               | PyInt n \<Rightarrow> Inr ''/admin/models/counter/0''
               | _ \<Rightarrow> Inl KeyError)\<rparr>"

text \<open>A row whose UUID is \<open>123e4567-e89b-12d3-a456-426614174000\<close>.\<close>

definition example_uuid :: "byte list" where
  "example_uuid = [0x12, 0x3e, 0x45, 0x67, 0xe8, 0x9b, 0x12, 0xd3,
                   0xa4, 0x56, 0x42, 0x66, 0x14, 0x17, 0x40, 0x00]"

definition example_row :: model_instance where
  "example_row = \<lparr>uuid = Some example_uuid\<rparr>"


section \<open>Properties\<close>

lemmas widget_defs =
  widget_crud_def widget_mapper_def widget_fetch_def widget_rows_def
  bare_crud_def abstract_crud_def none_path_crud_def abstract_fetch_object_def

lemmas crud_defs =
  crud_getitem_def traverse_to_object_def wrap_to_resource_def make_resource_def
  make_lineage_def Resource_init_def get_path_def get_title_def get_object_def

lemmas admin_defs =
  demo_admin_def demo_request_def admin_getitem_def get_admin_object_url_def

subsection \<open>The URL mapper\<close>

text \<open>Every six-bit value is recovered from its character.\<close>

lemma b64_distinct: "distinct b64_alphabet"
  by (simp add: b64_alphabet_def)

lemma b64_length: "length b64_alphabet = 64"
  by (simp add: b64_alphabet_def)

lemma b64_index_char: "n < 64 \<Longrightarrow> b64_index (b64_char n) = Some n"
  unfolding b64_index_def b64_char_def
  using map_of_zip_nth [of b64_alphabet "[0..<64]" n] b64_distinct b64_length
  by simp

lemma those_index_char:
  "\<forall>n \<in> set ss. n < 64 \<Longrightarrow> those (map b64_index (map b64_char ss)) = Some ss"
  by (induction ss) (simp_all add: b64_index_char)

text \<open>The arithmetic of one group: the six-bit values are below 64 and regroup to the bytes.\<close>

lemma unat_byte: "unat (a :: byte) < 256"
  using unsigned_less [of a, where ?'a = nat] by simp

lemma sextet_bounds:
  fixes x y :: nat
  assumes "x < 256" "y < 256"
  shows "x div 4 < 64" "x mod 4 * 16 + y div 16 < 64" "x mod 16 * 4 + y div 64 < 64"
    "x mod 64 < 64" "x mod 16 * 4 < 64" "x mod 4 * 16 < 64"
  using assms by simp_all

lemma regroup:
  fixes x y z :: nat
  assumes "x < 256" "y < 256" "z < 256"
  shows "x div 4 * 4 + (x mod 4 * 16 + y div 16) div 16 = x"
    and "(x mod 4 * 16 + y div 16) mod 16 * 16 + (y mod 16 * 4 + z div 64) div 4 = y"
    and "(y mod 16 * 4 + z div 64) mod 4 * 64 + z mod 64 = z"
    and "(x mod 4 * 16 + y div 16) mod 16 * 16 + (y mod 16 * 4) div 4 = y"
    and "x div 4 * 4 + (x mod 4 * 16) div 16 = x"
proof -
  have a: "(x mod 4 * 16 + y div 16) div 16 = x mod 4"
    using assms(2) by simp
  have b: "(x mod 4 * 16 + y div 16) mod 16 = y div 16"
    using assms(2) by simp
  have c: "(y mod 16 * 4 + z div 64) div 4 = y mod 16"
    using assms(3) by simp
  have d: "(y mod 16 * 4 + z div 64) mod 4 = z div 64"
    using assms(3) by simp
  have e: "y div 16 mod 16 = y div 16"
    using assms(2) by simp
  show "x div 4 * 4 + (x mod 4 * 16 + y div 16) div 16 = x"
    by (simp add: a)
  show "(x mod 4 * 16 + y div 16) mod 16 * 16 + (y mod 16 * 4 + z div 64) div 4 = y"
    using e by (simp add: b c)
  have f: "z div 64 mod 4 = z div 64"
    using assms(3) by simp
  show "(y mod 16 * 4 + z div 64) mod 4 * 64 + z mod 64 = z"
    using f by (simp add: d)
  show "(x mod 4 * 16 + y div 16) mod 16 * 16 + (y mod 16 * 4) div 4 = y"
    using e by (simp add: b)
  show "x div 4 * 4 + (x mod 4 * 16) div 16 = x"
    by simp
qed

lemma tail_bits_zero:
  fixes x :: nat
  shows "x mod 16 * 4 mod 4 = 0" and "x mod 4 * 16 mod 16 = 0"
  by simp_all

lemma byte_regroup:
  fixes a b c :: byte
  shows "of_nat (unat a div 4 * 4 + (unat a mod 4 * 16 + unat b div 16) div 16) = a"
    and "of_nat ((unat a mod 4 * 16 + unat b div 16) mod 16 * 16
                 + (unat b mod 16 * 4 + unat c div 64) div 4) = b"
    and "of_nat ((unat b mod 16 * 4 + unat c div 64) mod 4 * 64 + unat c mod 64) = c"
    and "of_nat ((unat a mod 4 * 16 + unat b div 16) mod 16 * 16
                 + (unat b mod 16 * 4) div 4) = b"
    and "of_nat (unat a div 4 * 4 + (unat a mod 4 * 16) div 16) = a"
  by (simp_all only: regroup [OF unat_byte unat_byte unat_byte] of_nat_unat ucast_id)

text \<open>Decoding undoes encoding, for byte strings of every length.\<close>

lemma b64_bytes_sextets: "b64_bytes (b64_sextets bs) = Some bs"
proof (induction bs rule: b64_sextets.induct)
  case (1 a b c rest)
  then show ?case
    by (simp only: b64_sextets.simps b64_bytes.simps append_Cons append_Nil
        byte_regroup option.case)
next
  case (2 a b)
  show ?case
    by (simp only: b64_sextets.simps b64_bytes.simps tail_bits_zero byte_regroup refl if_True)
next
  case (3 a)
  show ?case
    by (simp only: b64_sextets.simps b64_bytes.simps tail_bits_zero byte_regroup refl if_True)
next
  case 4
  show ?case by simp
qed

lemma sextets_lt_64: "\<forall>n \<in> set (b64_sextets bs). n < 64"
  by (induction bs rule: b64_sextets.induct)
     (simp_all add: sextet_bounds [OF unat_byte unat_byte])

lemma b64_decode_encode: "b64_decode (b64_encode bs) = Some bs"
  unfolding b64_decode_def b64_encode_def
  by (simp only: those_index_char [OF sextets_lt_64] option.case b64_bytes_sextets)

text \<open>
  C2. For every model instance that has a \<open>uuid\<close> attribute holding a 16-byte UUID,
  decoding the path that the mapper encodes for it gives back that UUID:
  \<open>mapper.get_id_from_path(mapper.get_path_from_object(o)) == o.uuid\<close>, and the path is
  one that \<open>is_id\<close> accepts.
\<close>

theorem base64_uuid_round_trip:
  "uuid ob = Some u \<Longrightarrow> length u = 16 \<Longrightarrow>
     (\<exists>p. get_path_from_object Base64UUIDMapper ob = Inr (PyStr p)
          \<and> get_id_from_path Base64UUIDMapper p = Inr u
          \<and> is_id Base64UUIDMapper p = Inr True)"
  by (simp add: Base64UUIDMapper_def b64_decode_encode)

theorem base64_uuid_round_trip_witness:
  "uuid example_row = Some example_uuid \<and> length example_uuid = 16
   \<and> get_path_from_object Base64UUIDMapper example_row = Inr (PyStr ''Ej5FZ-ibEtOkVkJmFBdAAA'')
   \<and> get_id_from_path Base64UUIDMapper ''Ej5FZ-ibEtOkVkJmFBdAAA'' = Inr example_uuid
   \<and> is_id Base64UUIDMapper ''Ej5FZ-ibEtOkVkJmFBdAAA'' = Inr True"
proof -
  have h: "uuid example_row = Some example_uuid"
    by (simp add: example_row_def)
  have l: "length example_uuid = 16"
    by (simp add: example_uuid_def)
  have "b64_encode example_uuid = ''Ej5FZ-ibEtOkVkJmFBdAAA''"
    by (simp add: b64_encode_def example_uuid_def b64_char_def b64_alphabet_def)
  then have e: "get_path_from_object Base64UUIDMapper example_row =
      Inr (PyStr ''Ej5FZ-ibEtOkVkJmFBdAAA'')"
    by (simp add: Base64UUIDMapper_def h)
  from base64_uuid_round_trip [OF h l] e h l show ?thesis
    by auto
qed

subsection \<open>Path resolution of a CRUD\<close>

text \<open>
  C1. For every path segment \<open>p\<close>, \<open>CRUD.__getitem__(p)\<close> calls \<open>mapper.is_id(p)\<close> before
  anything else. If the answer is false it raises \<open>KeyError\<close> and \<open>is_id\<close> is the only call
  it has made: neither \<open>get_id_from_path\<close> nor \<open>fetch_object\<close> runs. If the answer is true
  the result is that of \<open>traverse_to_object(p)\<close>, whose calls follow the \<open>is_id\<close> call.
\<close>
theorem crud_getitem_checks_is_id_first:
  "(\<exists>rest. snd (crud_getitem c p) = IsId p # rest)
   \<and> (is_id (mapper c) p = Inr False \<longrightarrow> crud_getitem c p = (Inl KeyError, [IsId p]))
   \<and> (is_id (mapper c) p = Inr True \<longrightarrow>
        crud_getitem c p =
          (fst (traverse_to_object c p), IsId p # snd (traverse_to_object c p)))"
  by (simp add: crud_getitem_def split: sum.split bool.split prod.split)

text \<open>The segment \<open>listing\<close> is declined; the segment \<open>a1\<close> is resolved to row 1.\<close>

theorem crud_getitem_checks_is_id_first_witness:
  "is_id (mapper widget_crud) ''listing'' = Inr False
   \<and> crud_getitem widget_crud ''listing'' = (Inl KeyError, [IsId ''listing''])
   \<and> is_id (mapper widget_crud) ''a1'' = Inr True
   \<and> crud_getitem widget_crud ''a1'' =
        (fst (traverse_to_object widget_crud ''a1''),
         IsId ''a1'' # snd (traverse_to_object widget_crud ''a1''))
   \<and> snd (crud_getitem widget_crud ''a1'') = [IsId ''a1'', GetIdFromPath ''a1'', FetchObject 1, GetPathFromObject 1]"
proof -
  have f: "is_id (mapper widget_crud) ''listing'' = Inr False"
    by (simp add: widget_defs)
  have t: "is_id (mapper widget_crud) ''a1'' = Inr True"
    by (simp add: widget_defs)
  have tr: "snd (traverse_to_object widget_crud ''a1'') = [GetIdFromPath ''a1'', FetchObject 1, GetPathFromObject 1]"
    by (simp add: widget_defs crud_defs)
  from crud_getitem_checks_is_id_first [of widget_crud "''listing''"]
       crud_getitem_checks_is_id_first [of widget_crud "''a1''"] f t tr
  show ?thesis by simp
qed

text \<open>
  C4, as the code has it. \<open>traverse_to_object(p)\<close> is \<open>mapper.get_id_from_path\<close>, then
  \<open>fetch_object\<close>, then \<open>wrap_to_resource\<close>. An exception raised by \<open>get_id_from_path\<close>
  or by \<open>fetch_object\<close> leaves \<open>traverse_to_object\<close> unchanged and ends it there: the later
  steps do not run, and nothing turns the exception into another one.
\<close>
theorem traverse_to_object_propagates:
  "(get_id_from_path (mapper c) p = Inl e \<longrightarrow>
      traverse_to_object c p = (Inl e, [GetIdFromPath p]))
   \<and> (get_id_from_path (mapper c) p = Inr i \<and> fetch_object c i = Inl e \<longrightarrow>
      traverse_to_object c p = (Inl e, [GetIdFromPath p, FetchObject i]))
   \<and> (get_id_from_path (mapper c) p = Inr i \<and> fetch_object c i = Inr ob \<longrightarrow>
      traverse_to_object c p =
        (fst (wrap_to_resource c ob),
         [GetIdFromPath p, FetchObject i] @ snd (wrap_to_resource c ob)))"
  by (simp add: traverse_to_object_def split: prod.split)

theorem traverse_to_object_propagates_witness:
  "get_id_from_path (mapper widget_crud) ''zz'' = Inl MappingError
   \<and> traverse_to_object widget_crud ''zz'' = (Inl MappingError, [GetIdFromPath ''zz''])
   \<and> get_id_from_path (mapper abstract_crud) ''a1'' = Inr 1
   \<and> fetch_object abstract_crud 1 = Inl NotImplementedError
   \<and> traverse_to_object abstract_crud ''a1'' =
        (Inl NotImplementedError, [GetIdFromPath ''a1'', FetchObject 1])
   \<and> get_id_from_path (mapper widget_crud) ''b2'' = Inr 2
   \<and> fetch_object widget_crud 2 = Inr 2
   \<and> traverse_to_object widget_crud ''b2'' =
        (fst (wrap_to_resource widget_crud 2),
         [GetIdFromPath ''b2'', FetchObject 2] @ snd (wrap_to_resource widget_crud 2))"
proof -
  have a: "get_id_from_path (mapper widget_crud) ''zz'' = Inl MappingError"
    by (simp add: widget_defs)
  have b: "get_id_from_path (mapper abstract_crud) ''a1'' = Inr 1"
    "fetch_object abstract_crud 1 = Inl NotImplementedError"
    by (simp_all add: widget_defs)
  have c: "get_id_from_path (mapper widget_crud) ''b2'' = Inr 2"
    "fetch_object widget_crud 2 = Inr 2"
    by (simp_all add: widget_defs)
  from traverse_to_object_propagates [where c = widget_crud and p = "''zz''" and e = MappingError]
       traverse_to_object_propagates
         [where c = abstract_crud and p = "''a1''" and e = NotImplementedError and i = 1]
       traverse_to_object_propagates [where c = widget_crud and p = "''b2''" and i = 2 and ob = 2]
       a b c
  show ?thesis by simp
qed

text \<open>
  C4 as stated fails: a \<open>MappingError\<close> of \<open>get_id_from_path\<close> and the
  \<open>NotImplementedError\<close> of the base class's \<open>fetch_object\<close> both escape as they are,
  and neither is the \<open>KeyError\<close> that signals a traversal miss.
\<close>
theorem traverse_to_object_not_found_counterexample:
  "get_id_from_path (mapper widget_crud) ''zz'' = Inl MappingError
   \<and> fst (traverse_to_object widget_crud ''zz'') = Inl MappingError
   \<and> fst (traverse_to_object widget_crud ''zz'') \<noteq> Inl KeyError
   \<and> fetch_object abstract_crud 1 = Inl NotImplementedError
   \<and> fst (traverse_to_object abstract_crud ''a1'') = Inl NotImplementedError
   \<and> fst (traverse_to_object abstract_crud ''a1'') \<noteq> Inl KeyError"
  by (simp add: widget_defs traverse_to_object_def)

subsection \<open>Wrapping objects\<close>

text \<open>
  C5, as the code has it. A CRUD without a \<open>Resource\<close> attribute fails with
  \<open>NotImplementedError\<close> in \<open>make_resource\<close>, that is when an object is wrapped:
  \<open>wrap_to_resource\<close> fails before it consults the mapper, \<open>traverse_to_object\<close> fails
  after the id has been decoded and the object fetched, and a segment that is not an id
  is still declined with \<open>KeyError\<close> as on any other CRUD.
\<close>
theorem make_resource_without_Resource:
  "Resource_attr c = None \<Longrightarrow>
     make_resource c ob = Inl NotImplementedError
     \<and> wrap_to_resource c ob = (Inl NotImplementedError, [])
     \<and> (is_id (mapper c) p = Inr False \<longrightarrow> crud_getitem c p = (Inl KeyError, [IsId p]))
     \<and> (get_id_from_path (mapper c) p = Inr i \<and> fetch_object c i = Inr ob \<longrightarrow>
          traverse_to_object c p =
            (Inl NotImplementedError, [GetIdFromPath p, FetchObject i]))"
  by (simp add: crud_defs)

theorem make_resource_without_Resource_witness:
  "Resource_attr bare_crud = None
   \<and> make_resource bare_crud 1 = Inl NotImplementedError
   \<and> wrap_to_resource bare_crud 1 = (Inl NotImplementedError, [])
   \<and> is_id (mapper bare_crud) ''listing'' = Inr False
   \<and> crud_getitem bare_crud ''listing'' = (Inl KeyError, [IsId ''listing''])
   \<and> get_id_from_path (mapper bare_crud) ''a1'' = Inr 1
   \<and> fetch_object bare_crud 1 = Inr 1
   \<and> traverse_to_object bare_crud ''a1'' =
        (Inl NotImplementedError, [GetIdFromPath ''a1'', FetchObject 1])"
proof -
  have h: "Resource_attr bare_crud = None"
    by (simp add: widget_defs)
  have k: "is_id (mapper bare_crud) ''listing'' = Inr False"
    "get_id_from_path (mapper bare_crud) ''a1'' = Inr 1"
    "fetch_object bare_crud 1 = Inr 1"
    by (simp_all add: widget_defs)
  from make_resource_without_Resource [OF h, where ob = 1 and p = "''listing''"]
       make_resource_without_Resource [OF h, where ob = 1 and p = "''a1''" and i = 1]
       h k
  show ?thesis by simp
qed

text \<open>
  C5 as stated fails: a CRUD without a \<open>Resource\<close> attribute exists and answers lookups;
  the failure comes during a lookup, at the first wrap, after storage has been read.
\<close>
theorem unimplemented_strategy_counterexample:
  "Resource_attr bare_crud = None
   \<and> crud_getitem bare_crud ''listing'' = (Inl KeyError, [IsId ''listing''])
   \<and> crud_getitem bare_crud ''a1'' =
        (Inl NotImplementedError, [IsId ''a1'', GetIdFromPath ''a1'', FetchObject 1])"
  by (simp add: widget_defs crud_defs)

text \<open>
  C6, as the code has it. On a CRUD that has a \<open>Resource\<close> attribute, for every object
  \<open>o\<close>: when the mapper returns a \<open>str\<close> for \<open>o\<close>, \<open>wrap_to_resource(o)\<close> returns a Resource
  that wraps \<open>o\<close>, whose parent is the CRUD itself and whose name is that path; when the
  mapper returns a value that is not a \<open>str\<close>, it fails with \<open>AssertionError\<close>; when the
  mapper raises, that exception propagates unchanged.
\<close>
theorem wrap_to_resource_lineage:
  "Resource_attr c = Some cls \<Longrightarrow>
     (get_path_from_object (mapper c) ob = Inr (PyStr s) \<longrightarrow>
        (\<exists>r. wrap_to_resource c ob = (Inr r, [GetPathFromObject ob])
             \<and> get_object r = ob \<and> r_parent r = Some c \<and> r_name r = Some s))
     \<and> (get_path_from_object (mapper c) ob = Inr v \<and> \<not> is_str v \<longrightarrow>
          wrap_to_resource c ob = (Inl AssertionError, [GetPathFromObject ob]))
     \<and> (get_path_from_object (mapper c) ob = Inl e \<longrightarrow>
          wrap_to_resource c ob = (Inl e, [GetPathFromObject ob]))"
  by (cases v) (simp_all add: crud_defs)

theorem wrap_to_resource_lineage_witness:
  "Resource_attr widget_crud = Some ''Resource''
   \<and> get_path_from_object (mapper widget_crud) 2 = Inr (PyStr ''b2'')
   \<and> (\<exists>r. wrap_to_resource widget_crud 2 = (Inr r, [GetPathFromObject 2])
          \<and> get_object r = 2 \<and> r_parent r = Some widget_crud \<and> r_name r = Some ''b2'')
   \<and> get_path_from_object (mapper none_path_crud) 2 = Inr PyNone \<and> \<not> is_str PyNone
   \<and> wrap_to_resource none_path_crud 2 = (Inl AssertionError, [GetPathFromObject 2])
   \<and> get_path_from_object (mapper widget_crud) 7 = Inl MappingError
   \<and> wrap_to_resource widget_crud 7 = (Inl MappingError, [GetPathFromObject 7])"
proof -
  have h: "Resource_attr widget_crud = Some ''Resource''"
    "Resource_attr none_path_crud = Some ''Resource''"
    by (simp_all add: widget_defs)
  have k: "get_path_from_object (mapper widget_crud) 2 = Inr (PyStr ''b2'')"
    "get_path_from_object (mapper none_path_crud) 2 = Inr PyNone"
    "get_path_from_object (mapper widget_crud) 7 = Inl MappingError"
    by (simp_all add: widget_defs)
  from wrap_to_resource_lineage [OF h(1), where ob = 2 and s = "''b2''"]
       wrap_to_resource_lineage [OF h(2), where ob = 2 and v = PyNone]
       wrap_to_resource_lineage [OF h(1), where ob = 7 and e = MappingError]
       h k
  show ?thesis by simp
qed

text \<open>
  C6 as stated fails: a mapper that answers \<open>None\<close> makes \<open>wrap_to_resource\<close> fail with
  \<open>AssertionError\<close>, not with \<open>MappingError\<close>.
\<close>
theorem wrap_to_resource_error_counterexample:
  "get_path_from_object (mapper none_path_crud) 2 = Inr PyNone
   \<and> fst (wrap_to_resource none_path_crud 2) = Inl AssertionError
   \<and> fst (wrap_to_resource none_path_crud 2) \<noteq> Inl MappingError"
  by (simp add: widget_defs crud_defs)

text \<open>
  C8. For every object \<open>o\<close> that wraps successfully, \<open>get_path()\<close> of the wrapped resource
  is \<open>mapper.get_path_from_object(o)\<close>, \<open>get_title()\<close> is the same as \<open>get_path()\<close>, and
  both are the path segment stored as the resource's name.
\<close>
theorem wrapped_resource_path:
  "wrap_to_resource c ob = (Inr r, calls) \<Longrightarrow>
     fst (get_path r) = get_path_from_object (mapper c) ob
     \<and> get_title r = get_path r
     \<and> (\<exists>s. r_name r = Some s \<and> fst (get_path r) = Inr (PyStr s))"
  by (auto simp: crud_defs split: option.splits sum.splits pyval.splits)

theorem wrapped_resource_path_witness:
  "(\<exists>r calls. wrap_to_resource widget_crud 1 = (Inr r, calls)
      \<and> fst (get_path r) = get_path_from_object (mapper widget_crud) 1
      \<and> get_title r = get_path r
      \<and> r_name r = Some ''a1'' \<and> fst (get_path r) = Inr (PyStr ''a1''))"
proof -
  obtain r calls where w: "wrap_to_resource widget_crud 1 = (Inr r, calls)"
    and n: "r_name r = Some ''a1''"
    by (simp add: widget_defs crud_defs)
  from wrapped_resource_path [OF w] w n show ?thesis by auto
qed

text \<open>
  C3. For every Resource on which \<open>__parent__\<close> was never set, \<open>get_path()\<close> and
  \<open>get_title()\<close> raise \<open>AssertionError\<close>, before any call to the mapper, and return no
  value.
\<close>
theorem get_path_without_lineage_fails:
  "r_parent r = None \<Longrightarrow>
     get_path r = (Inl AssertionError, []) \<and> get_title r = (Inl AssertionError, [])"
  by (simp add: get_path_def get_title_def)

text \<open>A Resource fresh from its constructor is such a Resource.\<close>

theorem get_path_without_lineage_fails_witness:
  "r_parent (Resource_init ''Resource'' (1::nat) :: (nat, nat) resource) = None
   \<and> get_path (Resource_init ''Resource'' (1::nat) :: (nat, nat) resource) = (Inl AssertionError, [])
   \<and> get_title (Resource_init ''Resource'' (1::nat) :: (nat, nat) resource) = (Inl AssertionError, [])"
proof -
  have h: "r_parent (Resource_init ''Resource'' (1::nat) :: (nat, nat) resource) = None"
    by (simp add: Resource_init_def)
  from get_path_without_lineage_fails [OF h] h show ?thesis by simp
qed

subsection \<open>The Admin root\<close>

text \<open>
  C7. For every name \<open>n\<close>, \<open>Admin.__getitem__(n)\<close> raises \<open>KeyError\<close> when \<open>n\<close> is not a key
  of \<open>children\<close>, and returns the child registered under \<open>n\<close>, as it is, when \<open>n\<close> is a key.
\<close>
theorem admin_getitem_lookup:
  "(nm \<notin> dom (children a) \<longrightarrow> admin_getitem a nm = Inl KeyError)
   \<and> (children a nm = Some child \<longrightarrow> admin_getitem a nm = Inr child)"
  by (auto simp: admin_getitem_def split: option.split)

theorem admin_getitem_lookup_witness:
  "''shell'' \<notin> dom (children demo_admin)
   \<and> admin_getitem demo_admin ''shell'' = Inl KeyError
   \<and> children demo_admin ''group'' = Some 102
   \<and> admin_getitem demo_admin ''group'' = Inr 102"
proof -
  have n: "''shell'' \<notin> dom (children demo_admin)"
    by (simp add: demo_admin_def)
  have y: "children demo_admin ''group'' = Some 102"
    by (simp add: demo_admin_def)
  from admin_getitem_lookup [where nm = "''shell''" and a = demo_admin]
       admin_getitem_lookup [where nm = "''group''" and a = demo_admin and child = 102] n y
  show ?thesis by simp
qed

text \<open>
  C9, as the code has it. \<open>get_admin_object_url(obj, view_name)\<close> returns \<open>None\<close> when
  \<open>obj\<close> is falsy, \<open>None\<close> included. For a truthy \<open>obj\<close> it calls \<open>get_admin_resource(obj)\<close>,
  lets its exception propagate, and otherwise returns \<open>request.resource_url\<close> of the
  resource, with \<open>view_name\<close> as the one extra element when \<open>view_name\<close> is truthy and with
  no extra element when it is not.
\<close>
theorem get_admin_object_url_cases:
  "(\<not> truthy ob \<longrightarrow> get_admin_object_url a ob view_name = (Inr None, []))
   \<and> (truthy ob \<and> get_admin_resource a ob = Inl e \<longrightarrow>
        get_admin_object_url a ob view_name = (Inl e, [GetAdminResource ob]))
   \<and> (truthy ob \<and> get_admin_resource a ob = Inr res \<and> truthy view_name \<longrightarrow>
        get_admin_object_url a ob view_name =
          (map_sum id Some (resource_url (request a) res [view_name]),
           [GetAdminResource ob, ResourceUrl res [view_name]]))
   \<and> (truthy ob \<and> get_admin_resource a ob = Inr res \<and> \<not> truthy view_name \<longrightarrow>
        get_admin_object_url a ob view_name =
          (map_sum id Some (resource_url (request a) res []),
           [GetAdminResource ob, ResourceUrl res []]))"
  by (simp add: get_admin_object_url_def)

theorem get_admin_object_url_cases_witness:
  "\<not> truthy PyNone
   \<and> get_admin_object_url demo_admin PyNone (PyStr ''edit'') = (Inr None, [])
   \<and> truthy (PyStr ''x'') \<and> get_admin_resource demo_admin (PyStr ''x'') = Inl KeyError
   \<and> get_admin_object_url demo_admin (PyStr ''x'') PyNone = (Inl KeyError, [GetAdminResource (PyStr ''x'')])
   \<and> truthy (PyInstance 3) \<and> truthy (PyStr ''edit'')
   \<and> get_admin_resource demo_admin (PyInstance 3) = Inr ''/admin/models/user/xxx''
   \<and> fst (get_admin_object_url demo_admin (PyInstance 3) (PyStr ''edit'')) =
        Inr (Some ''/admin/models/user/xxx/edit'')
   \<and> \<not> truthy PyNone
   \<and> fst (get_admin_object_url demo_admin (PyInstance 3) PyNone) =
        Inr (Some ''/admin/models/user/xxx/'')"
proof -
  have r: "get_admin_resource demo_admin (PyStr ''x'') = Inl KeyError"
    "get_admin_resource demo_admin (PyInstance 3) = Inr ''/admin/models/user/xxx''"
    by (simp_all add: demo_admin_def numeral_3_eq_3)
  have u: "resource_url (request demo_admin) ''/admin/models/user/xxx'' [PyStr ''edit'']
             = Inr ''/admin/models/user/xxx/edit''"
    "resource_url (request demo_admin) ''/admin/models/user/xxx'' []
             = Inr ''/admin/models/user/xxx/''"
    by (simp_all add: demo_admin_def demo_request_def)
  from get_admin_object_url_cases
         [where ob = PyNone and a = demo_admin and view_name = "PyStr ''edit''"]
       get_admin_object_url_cases
         [where ob = "PyStr ''x''" and a = demo_admin and e = KeyError and view_name = PyNone]
       get_admin_object_url_cases
         [where ob = "PyInstance 3" and a = demo_admin and res = "''/admin/models/user/xxx''"
            and view_name = "PyStr ''edit''"]
       get_admin_object_url_cases
         [where ob = "PyInstance 3" and a = demo_admin and res = "''/admin/models/user/xxx''"
            and view_name = PyNone]
       r u
  show ?thesis by simp
qed

text \<open>
  C9 as stated fails: the integer 0 is not \<open>None\<close> and has an admin resource with a URL,
  yet \<open>get_admin_object_url\<close> returns \<open>None\<close> for it and resolves nothing.
\<close>
theorem get_admin_object_url_zero_counterexample:
  "PyInt 0 \<noteq> PyNone
   \<and> get_admin_resource demo_admin (PyInt 0) = Inr ''/admin/models/counter/0''
   \<and> resource_url (request demo_admin) ''/admin/models/counter/0'' [] =
        Inr ''/admin/models/counter/0/''
   \<and> get_admin_object_url demo_admin (PyInt 0) PyNone = (Inr None, [])"
  by (simp add: admin_defs)

text \<open>
  C10. For every object whose truth value is false, \<open>get_admin_object_url\<close> returns
  \<open>None\<close> whatever the view name, and makes no call: the object is never resolved to an
  admin resource or URL.
\<close>
theorem falsy_object_has_no_admin_url:
  "\<not> truthy ob \<Longrightarrow> get_admin_object_url a ob view_name = (Inr None, [])"
  by (simp add: get_admin_object_url_def)

text \<open>The integer 0 and the empty list are falsy and are not \<open>None\<close>.\<close>

theorem falsy_object_has_no_admin_url_witness:
  "\<not> truthy (PyInt 0) \<and> PyInt 0 \<noteq> PyNone
   \<and> get_admin_object_url demo_admin (PyInt 0) (PyStr ''show'') = (Inr None, [])
   \<and> \<not> truthy (PyList []) \<and> PyList [] \<noteq> PyNone
   \<and> get_admin_object_url demo_admin (PyList []) PyNone = (Inr None, [])"
proof -
  have z: "\<not> truthy (PyInt 0)" and e: "\<not> truthy (PyList [])"
    by simp_all
  from falsy_object_has_no_admin_url [OF z, of demo_admin "PyStr ''show''"]
       falsy_object_has_no_admin_url [OF e, of demo_admin PyNone]
  show ?thesis by simp
qed

end
